theory Spec2Isabelle
  imports Main "HOL-Library.Sublist"
begin

section \<open>Session lifecycle of \<^verbatim>\<open>src/sessions.js\<close>\<close>

text \<open>
  The module keeps one process-wide \<^verbatim>\<open>Map\<close> from session identifiers to client
  objects and talks to three collaborators: the messaging client library, the
  filesystem and the webhook dispatcher. The embedding threads the registry through
  every operation as explicit state, records each call to a collaborator in a trace
  (so that order and absence of effects can be stated), and takes the collaborators'
  answers from a record of functions, which every general theorem quantifies over.
  \<^verbatim>\<open>restoreSessions\<close> only calls \<^verbatim>\<open>setupSession\<close> for the directories it finds
  and is not needed below.
  A thrown exception or rejected promise is the left injection of a sum; an
  \<^verbatim>\<open>async\<close> function that never settles is the value \<open>None\<close>. Calls to
  \<^verbatim>\<open>console.log\<close> are left out: they change nothing that is observed here.
\<close>

subsection \<open>Data\<close>

type_synonym sessionId = string

text \<open>A client object is known by its identity only.\<close>

type_synonym handle = nat

text \<open>
  A thrown value: an \<^verbatim>\<open>Error\<close> with its text, or the \<^verbatim>\<open>TypeError\<close> that
  the runtime raises when a method is read from \<^verbatim>\<open>undefined\<close> (the name of the
  property is kept).
\<close>

datatype js_error = Error string | TypeError string

fun error_message :: "js_error \<Rightarrow> string" where
  "error_message (Error m) = m"
| "error_message (TypeError p) = ''Cannot read properties of undefined (reading '' @ p @ '')''"

text \<open>The object \<^verbatim>\<open>{ success, state, message }\<close>; \<^verbatim>\<open>state: null\<close> is \<open>None\<close>.\<close>

record validation =
  success :: bool
  state :: "string option"
  message :: string

text \<open>The object \<^verbatim>\<open>{ success, message, client }\<close> that \<^verbatim>\<open>setupSession\<close> returns.\<close>

record setup_result =
  setup_success :: bool
  setup_message :: string
  client :: "handle option"

text \<open>
  What the \<^verbatim>\<open>message\<close> listener reads from an incoming message:
  \<^verbatim>\<open>message.hasMedia\<close>, \<^verbatim>\<open>message._data?.size\<close>, \<^verbatim>\<open>message._data?.mimetype\<close>
  (\<open>None\<close> where the value is \<^verbatim>\<open>undefined\<close>) and the outcome of
  \<^verbatim>\<open>await message.downloadMedia()\<close>.
\<close>

type_synonym media = string

record incoming_message =
  hasMedia :: bool
  data_size :: "nat option"
  data_mimetype :: "string option"
  downloadMedia :: "js_error + media"

text \<open>
  The third argument of \<^verbatim>\<open>triggerWebhook\<close>: \<^verbatim>\<open>{ message }\<close>, \<^verbatim>\<open>{ media }\<close>, or
  the object built by \<^verbatim>\<open>new MessageMedia(mimetype, null, size)\<close>, kept as the
  constructor call with its three positional arguments (the second is \<^verbatim>\<open>null\<close>,
  written \<open>None\<close>).
\<close>

datatype payload =
    Message_payload incoming_message
  | Media_payload media
  | MessageMedia "string option" "media option" "nat option"

text \<open>
  One entry of the trace per call to a collaborator and per change of the registry.
  The last two constructors mark, inside \<^verbatim>\<open>flushSessions\<close>, the value that
  \<^verbatim>\<open>await validateSession(sessionId)\<close> produced and the call of
  \<^verbatim>\<open>deleteSession(sessionId, validation)\<close>.
\<close>

datatype effect =
    NewClient handle sessionId
  | Initialize handle
  | On handle string
  | SessionsSet sessionId handle
  | SessionsDelete sessionId
  | WaitForNestedObject handle string "js_error option"
  | Evaluate handle bool
  | Sleep nat
  | GetState handle
  | Logout handle
  | Destroy handle
  | Realpath string
  | Rm string
  | Readdir string
  | TriggerWebhook sessionId string payload
  | DownloadMedia
  | ValidateReturned sessionId validation
  | DeleteSessionInvoked sessionId validation

text \<open>
  The configuration (\<^verbatim>\<open>./config\<close>) and the answers of the collaborators.
  \<open>None\<close> for a call that returns nothing means that it succeeded, \<open>Some e\<close> that
  it threw \<open>e\<close>. \<open>evaluate w c k\<close> tells whether the attempt number \<open>k\<close> (from 0) of
  \<^verbatim>\<open>client.pupPage.evaluate('1')\<close> within one validation succeeds; it fails also
  while \<^verbatim>\<open>client.pupPage\<close> is still \<^verbatim>\<open>undefined\<close>.
\<close>

record world =
  sessionFolderPath :: string
  maxAttachmentSize :: nat
  new_Client :: "sessionId \<Rightarrow> js_error option"
  waitForNestedObject :: "handle \<Rightarrow> string \<Rightarrow> js_error option"
  evaluate :: "handle \<Rightarrow> nat \<Rightarrow> bool"
  getState :: "handle \<Rightarrow> js_error + string"
  logout :: "handle \<Rightarrow> js_error option"
  destroy :: "handle \<Rightarrow> js_error option"
  realpath :: "string \<Rightarrow> js_error + string"
  rm :: "string \<Rightarrow> js_error option"
  readdir :: "string \<Rightarrow> js_error + string list"

text \<open>
  The state of the process: the registry \<^verbatim>\<open>sessions\<close>, the identity the next
  constructed client gets, and the trace so far.
\<close>

record system =
  sessions :: "sessionId \<rightharpoonup> handle"
  next_handle :: handle
  trace :: "effect list"

definition emit :: "effect list \<Rightarrow> system \<Rightarrow> system" where
  "emit es s = s\<lparr>trace := trace s @ es\<rparr>"

text \<open>\<^verbatim>\<open>str.startsWith(searchString)\<close>.\<close>

definition startsWith :: "string \<Rightarrow> string \<Rightarrow> bool" where
  "startsWith str searchString = prefix searchString str"

subsection \<open>validateSession\<close>

text \<open>
  The loop \<^verbatim>\<open>while (true) { try { await client.pupPage.evaluate('1'); break }
  catch (error) { await sleep(100) } }\<close>. It has no bound, so it is a partial
  function: \<open>None\<close> when no attempt ever succeeds.
\<close>

partial_function (option) evaluate_loop :: "world \<Rightarrow> handle \<Rightarrow> nat \<Rightarrow> system \<Rightarrow> system option" where
  "evaluate_loop w c k s =
     (if evaluate w c k then Some (emit [Evaluate c True] s)
      else evaluate_loop w c (Suc k) (emit [Evaluate c False, Sleep 100] s))"

text \<open>
  The body of the outer \<^verbatim>\<open>try\<close>. The promise of \<^verbatim>\<open>waitForNestedObject\<close> has a
  \<^verbatim>\<open>.catch\<close> handler whose value becomes the value of the awaited expression; the
  statement does nothing with that value, so after a rejection control goes on to
  the loop exactly as after a success. Only the trace records the outcome.
\<close>

definition validateSession_try :: "world \<Rightarrow> sessionId \<Rightarrow> system \<Rightarrow> ((js_error + validation) \<times> system) option" where
  "validateSession_try w sessionId s =
     (case sessions s sessionId of
        None \<Rightarrow> Some (Inr \<lparr>success = False, state = None, message = ''session_not_found''\<rparr>, s)
      | Some c \<Rightarrow>
          (case evaluate_loop w c 0
                  (emit [WaitForNestedObject c ''pupPage'' (waitForNestedObject w c ''pupPage'')] s) of
             None \<Rightarrow> None
           | Some s1 \<Rightarrow>
               (case getState w c of
                  Inl e \<Rightarrow> Some (Inl e, emit [GetState c] s1)
                | Inr st \<Rightarrow>
                    if st \<noteq> ''CONNECTED''
                    then Some (Inr \<lparr>success = False, state = Some st, message = ''session_not_connected''\<rparr>,
                               emit [GetState c] s1)
                    else Some (Inr \<lparr>success = True, state = Some st, message = ''session_connected''\<rparr>,
                               emit [GetState c] s1))))"

text \<open>The outer \<^verbatim>\<open>catch\<close> turns a thrown error into a returned object.\<close>

definition validateSession :: "world \<Rightarrow> sessionId \<Rightarrow> system \<Rightarrow> ((js_error + validation) \<times> system) option" where
  "validateSession w sessionId s =
     (case validateSession_try w sessionId s of
        None \<Rightarrow> None
      | Some (Inl e, s') \<Rightarrow> Some (Inr \<lparr>success = False, state = None, message = error_message e\<rparr>, s')
      | Some (Inr r, s') \<Rightarrow> Some (Inr r, s'))"

subsection \<open>setupSession\<close>

text \<open>The listeners attached with \<^verbatim>\<open>client.on\<close>, in the order of the source.\<close>

definition event_names :: "string list" where
  "event_names =
     [''auth_failure'', ''authenticated'', ''call'', ''change_state'', ''disconnected'',
      ''group_join'', ''group_leave'', ''group_update'', ''loading_screen'', ''media_uploaded'',
      ''message'', ''message_ack'', ''message_create'', ''message_reaction'',
      ''message_revoke_everyone'', ''qr'', ''ready'', ''contact_changed'']"

text \<open>
  A rejection of \<^verbatim>\<open>client.initialize()\<close> is logged by its own \<^verbatim>\<open>.catch\<close>; inside
  the \<^verbatim>\<open>try\<close> only the constructors can throw.
\<close>

definition setupSession :: "world \<Rightarrow> sessionId \<Rightarrow> system \<Rightarrow> setup_result \<times> system" where
  "setupSession w sessionId s =
     (case sessions s sessionId of
        Some c \<Rightarrow>
          (\<lparr>setup_success = False, setup_message = ''Session already exists for: '' @ sessionId,
            client = Some c\<rparr>, s)
      | None \<Rightarrow>
          (case new_Client w sessionId of
             Some e \<Rightarrow> (\<lparr>setup_success = False, setup_message = error_message e, client = None\<rparr>, s)
           | None \<Rightarrow>
               (let c = next_handle s;
                    s1 = emit ([NewClient c sessionId, Initialize c] @ map (On c) event_names
                               @ [SessionsSet sessionId c]) s
                in (\<lparr>setup_success = True, setup_message = ''Session initiated successfully'',
                     client = Some c\<rparr>,
                    s1\<lparr>sessions := (sessions s1)(sessionId \<mapsto> c), next_handle := Suc c\<rparr>))))"

text \<open>
  The listener for \<^verbatim>\<open>message\<close>. \<^verbatim>\<open>undefined < maxAttachmentSize\<close> is false, so a
  message without a declared size takes the second branch.
\<close>

definition on_message :: "world \<Rightarrow> sessionId \<Rightarrow> incoming_message \<Rightarrow> (js_error + unit) \<times> effect list" where
  "on_message w sessionId msg =
     (let t = [TriggerWebhook sessionId ''message'' (Message_payload msg)] in
      if hasMedia msg then
        (if (case data_size msg of None \<Rightarrow> False | Some n \<Rightarrow> n < maxAttachmentSize w) then
           (case downloadMedia msg of
              Inl e \<Rightarrow> (Inl e, t @ [DownloadMedia])
            | Inr m \<Rightarrow> (Inr (), t @ [DownloadMedia, TriggerWebhook sessionId ''media'' (Media_payload m)]))
         else
           (Inr (), t @ [TriggerWebhook sessionId ''media''
                           (MessageMedia (data_mimetype msg) None (data_size msg))]))
      else (Inr (), t))"

subsection \<open>deleteSessionFolder and deleteSession\<close>

definition deleteSessionFolder :: "world \<Rightarrow> sessionId \<Rightarrow> system \<Rightarrow> (js_error + unit) \<times> system" where
  "deleteSessionFolder w sessionId s =
     (let targetDirPath = sessionFolderPath w @ ''/session-'' @ sessionId @ ''/'';
          s1 = emit [Realpath targetDirPath] s
      in case realpath w targetDirPath of
           Inl e \<Rightarrow> (Inl e, s1)
         | Inr resolvedTargetDirPath \<Rightarrow>
             (let s2 = emit [Realpath (sessionFolderPath w)] s1
              in case realpath w (sessionFolderPath w) of
                   Inl e \<Rightarrow> (Inl e, s2)
                 | Inr resolvedSessionPath \<Rightarrow>
                     if \<not> startsWith resolvedTargetDirPath resolvedSessionPath
                     then (Inl (Error ''Invalid path''), s2)
                     else (case rm w targetDirPath of
                             Some e \<Rightarrow> (Inl e, emit [Rm targetDirPath] s2)
                           | None \<Rightarrow> (Inr (), emit [Rm targetDirPath] s2))))"

text \<open>
  \<^verbatim>\<open>sessions.get(sessionId)\<close> is \<^verbatim>\<open>undefined\<close> for an identifier that is not in
  the registry, and reading \<^verbatim>\<open>logout\<close> or \<^verbatim>\<open>destroy\<close> from it throws.
\<close>

definition deleteSession :: "world \<Rightarrow> sessionId \<Rightarrow> validation \<Rightarrow> system \<Rightarrow> (js_error + unit) \<times> system" where
  "deleteSession w sessionId v s =
     (if success v then
        (case sessions s sessionId of
           None \<Rightarrow> (Inl (TypeError ''logout''), s)
         | Some c \<Rightarrow>
             (case logout w c of
                Some e \<Rightarrow> (Inl e, emit [Logout c] s)
              | None \<Rightarrow> (Inr (), emit [Logout c] s)))
      else if message v = ''session_not_connected'' then
        (case sessions s sessionId of
           None \<Rightarrow> (Inl (TypeError ''destroy''), s)
         | Some c \<Rightarrow>
             (case destroy w c of
                Some e \<Rightarrow> (Inl e, emit [Destroy c] s)
              | None \<Rightarrow>
                  (case deleteSessionFolder w sessionId (emit [Destroy c] s) of
                     (Inl e, s1) \<Rightarrow> (Inl e, s1)
                   | (Inr u, s1) \<Rightarrow>
                       (Inr (), (emit [SessionsDelete sessionId] s1)
                                  \<lparr>sessions := (sessions s1)(sessionId := None)\<rparr>))))
      else (Inr (), s))"

subsection \<open>flushSessions\<close>




subsection \<open>Auxiliary notions\<close>

text \<open>The trace of \<open>n\<close> failed attempts of the loop, each followed by its pause.\<close>

definition failed_attempts :: "handle \<Rightarrow> nat \<Rightarrow> effect list" where
  "failed_attempts c n = concat (replicate n [Evaluate c False, Sleep 100])"

text \<open>What an operation added to the trace.\<close>

definition new_trace :: "system \<Rightarrow> system \<Rightarrow> effect list" where
  "new_trace s s' = drop (length (trace s)) (trace s')"

text \<open>The path that \<^verbatim>\<open>deleteSessionFolder\<close> builds from the identifier.\<close>

definition targetDirPath :: "world \<Rightarrow> sessionId \<Rightarrow> string" where
  "targetDirPath w sessionId = sessionFolderPath w @ ''/session-'' @ sessionId @ ''/''"

text \<open>
  The path guard as the specification states its contract (section 4.1), not as the
  source tests it: both paths resolve, and the resolved target has the resolved root
  extended by a separator as a prefix. The test of the source compares without the
  separator and lets more paths through (C1).
\<close>

definition PathGuard_spec :: "world \<Rightarrow> sessionId \<Rightarrow> bool" where
  "PathGuard_spec w sessionId =
     (case realpath w (targetDirPath w sessionId) of
        Inl e \<Rightarrow> False
      | Inr resolvedTarget \<Rightarrow>
          (case realpath w (sessionFolderPath w) of
             Inl e \<Rightarrow> False
           | Inr resolvedRoot \<Rightarrow> startsWith resolvedTarget (resolvedRoot @ ''/'')))"



text \<open>
  The part of the trace of a flush that belongs to one listed session \<open>i\<close>, whose
  entry in the registry is \<open>h\<close> when its turn comes. It is the trace of the validation,
  the mark of the result \<open>v\<close>, and, unless only inactive sessions are to be deleted
  and \<open>v\<close> is a success, the mark of the call of deleteSession followed by what the
  call does: the logout of the handle for a success, the forced teardown for the
  message \<^verbatim>\<open>session_not_connected\<close>, nothing for any other result. \<open>whole\<close> tells
  whether the call returned; a teardown that threw stops after the destroy, after a
  \<^verbatim>\<open>realpath\<close> or after the \<^verbatim>\<open>rm\<close>.
\<close>

definition session_segment ::
  "world \<Rightarrow> bool \<Rightarrow> bool \<Rightarrow> handle option \<Rightarrow> sessionId \<Rightarrow> effect list \<Rightarrow> bool" where
  "session_segment w deleteOnlyInactive whole h i seg =
     (\<exists>t t1 v E.
        sessions t i = h \<and> validateSession w i t = Some (Inr v, t1)
        \<and> seg = new_trace t t1 @ ValidateReturned i v
                  # (if deleteOnlyInactive \<and> success v then [] else DeleteSessionInvoked i v # E)
        \<and> (deleteOnlyInactive \<and> success v \<longrightarrow> whole)
        \<and> (\<not> deleteOnlyInactive \<and> success v \<longrightarrow>
              (\<exists>c. h = Some c \<and> E = [Logout c] \<and> (whole \<longleftrightarrow> logout w c = None)))
        \<and> (\<not> success v \<and> message v = ''session_not_connected'' \<longrightarrow>
              (\<exists>c. h = Some c \<and>
                 (if whole
                  then E = [Destroy c, Realpath (targetDirPath w i), Realpath (sessionFolderPath w),
                            Rm (targetDirPath w i), SessionsDelete i]
                  else E \<in> set [[Destroy c],
                                [Destroy c, Realpath (targetDirPath w i)],
                                [Destroy c, Realpath (targetDirPath w i),
                                 Realpath (sessionFolderPath w)],
                                [Destroy c, Realpath (targetDirPath w i),
                                 Realpath (sessionFolderPath w), Rm (targetDirPath w i)]])))
        \<and> (\<not> success v \<and> message v \<noteq> ''session_not_connected'' \<longrightarrow> E = [] \<and> whole))"

text \<open>
  The trace of the loop over the listed identifiers, segment by segment, from the
  registry \<open>m\<close> to the registry \<open>m'\<close>: a segment whose teardown completed removes the
  entry, and the first call that throws ends the loop with its error.
\<close>

inductive flush_segments ::
  "world \<Rightarrow> bool \<Rightarrow> (sessionId \<rightharpoonup> handle) \<Rightarrow> sessionId list \<Rightarrow> js_error + unit
     \<Rightarrow> effect list list \<Rightarrow> (sessionId \<rightharpoonup> handle) \<Rightarrow> bool"
  for w :: world and deleteOnlyInactive :: bool where
  finished: "flush_segments w deleteOnlyInactive m [] (Inr ()) [] m"
| continued:
    "session_segment w deleteOnlyInactive True (m i) i seg \<Longrightarrow>
     flush_segments w deleteOnlyInactive
        (if SessionsDelete i \<in> set seg then m(i := None) else m) ids r segs m' \<Longrightarrow>
     flush_segments w deleteOnlyInactive m (i # ids) r (seg # segs) m'"
| stopped:
    "session_segment w deleteOnlyInactive False (m i) i seg \<Longrightarrow>
     flush_segments w deleteOnlyInactive m (i # ids) (Inl e) [seg] m"

subsection \<open>Concrete configurations\<close>

text \<open>
  A configuration in which every collaborator succeeds at once and no path exists;
  the others change single answers of it.
\<close>

definition quiet_world :: world where
  "quiet_world =
     \<lparr>sessionFolderPath = ''/data/sessions'', maxAttachmentSize = 1000000,
      new_Client = (\<lambda>i. None), waitForNestedObject = (\<lambda>c p. None),
      evaluate = (\<lambda>c k. True), getState = (\<lambda>c. Inr ''CONNECTED''),
      logout = (\<lambda>c. None), destroy = (\<lambda>c. None),
      realpath = (\<lambda>p. Inl (Error ''ENOENT'')), rm = (\<lambda>p. None),
      readdir = (\<lambda>p. Inr [])\<rparr>"

definition no_sessions :: system where
  "no_sessions = \<lparr>sessions = Map.empty, next_handle = 0, trace = []\<rparr>"

definition one_session :: system where
  "one_session = \<lparr>sessions = [''abc'' \<mapsto> 7], next_handle = 8, trace = []\<rparr>"

text \<open>
  \<^verbatim>\<open>/data/sessions/session-abc\<close> is a symbolic link to the directory
  \<^verbatim>\<open>/data/sessions-evil/x\<close>, which lies beside the root.
\<close>

definition sibling_world :: world where
  "sibling_world = quiet_world
     \<lparr>realpath := (\<lambda>p. if p = ''/data/sessions/session-abc/'' then Inr ''/data/sessions-evil/x''
                        else if p = ''/data/sessions'' then Inr ''/data/sessions''
                        else Inl (Error ''ENOENT''))\<rparr>"

text \<open>
  The bounded wait for \<^verbatim>\<open>pupPage\<close> times out; the page appears afterwards, so
  that the third evaluation succeeds.
\<close>

definition late_page_world :: world where
  "late_page_world = quiet_world
     \<lparr>waitForNestedObject := (\<lambda>c p. Some (Error ''Timed out waiting for nested object'')),
      evaluate := (\<lambda>c k. 2 \<le> k)\<rparr>"

text \<open>The directory of the session \<^verbatim>\<open>abc\<close> exists under the root.\<close>

definition folder_world :: world where
  "folder_world = quiet_world
     \<lparr>realpath := (\<lambda>p. if p = ''/data/sessions/session-abc/'' then Inr ''/data/sessions/session-abc''
                        else if p = ''/data/sessions'' then Inr ''/data/sessions''
                        else Inl (Error ''ENOENT''))\<rparr>"

text \<open>The same, but the directory is in use and cannot be removed.\<close>

definition busy_world :: world where
  "busy_world = folder_world \<lparr>rm := (\<lambda>p. Some (Error ''EBUSY''))\<rparr>"

text \<open>Validation results of the three classes.\<close>

definition not_connected :: validation where
  "not_connected = \<lparr>success = False, state = Some ''OPENING'', message = ''session_not_connected''\<rparr>"

definition connected :: validation where
  "connected = \<lparr>success = True, state = Some ''CONNECTED'', message = ''session_connected''\<rparr>"

definition not_found :: validation where
  "not_found = \<lparr>success = False, state = None, message = ''session_not_found''\<rparr>"

text \<open>The first evaluation throws, the second succeeds.\<close>

definition retry_world :: world where
  "retry_world = quiet_world \<lparr>evaluate := (\<lambda>c k. 1 \<le> k)\<rparr>"


text \<open>Two evaluations throw, the third succeeds, and the query of the state throws.\<close>

definition flaky_world :: world where
  "flaky_world = quiet_world
     \<lparr>evaluate := (\<lambda>c k. 2 \<le> k), getState := (\<lambda>c. Inl (Error ''Protocol error''))\<rparr>"

text \<open>
  A message with 5 MB of media, and a configuration with a threshold of 10 MB (the
  threshold of \<open>quiet_world\<close> is 1 MB).
\<close>

definition large_threshold_world :: world where
  "large_threshold_world = quiet_world \<lparr>maxAttachmentSize := 10000000\<rparr>"

definition photo :: incoming_message where
  "photo = \<lparr>hasMedia = True, data_size = Some 5000000, data_mimetype = Some ''image/jpeg'',
            downloadMedia = Inr ''/9j/4AAQSkZJRg==''\<rparr>"




section \<open>Properties\<close>

subsection \<open>The evaluation loop\<close>

lemma emit_emit: "emit es (emit ds s) = emit (ds @ es) s"
  by (simp add: emit_def)

lemma sessions_emit: "sessions (emit es s) = sessions s"
  by (simp add: emit_def)

lemma trace_emit: "trace (emit es s) = trace s @ es"
  by (simp add: emit_def)

lemma new_trace_emit: "new_trace s (emit es s) = es"
  by (simp add: new_trace_def emit_def)

text \<open>The loop returns at the first successful attempt.\<close>

lemma evaluate_loop_succeeds:
  "evaluate w c (k + n) \<Longrightarrow> (\<And>j. j < n \<Longrightarrow> \<not> evaluate w c (k + j)) \<Longrightarrow>
   evaluate_loop w c k s = Some (emit (failed_attempts c n @ [Evaluate c True]) s)"
proof (induction n arbitrary: k s)
  case 0
  then show ?case by (subst evaluate_loop.simps) (simp add: failed_attempts_def)
next
  case (Suc n)
  have nk: "\<not> evaluate w c k" using Suc.prems(2) [of 0] by simp
  have "evaluate_loop w c (Suc k) (emit [Evaluate c False, Sleep 100] s)
        = Some (emit (failed_attempts c n @ [Evaluate c True]) (emit [Evaluate c False, Sleep 100] s))"
  proof (rule Suc.IH)
    show "evaluate w c (Suc k + n)" using Suc.prems(1) by simp
    fix j assume "j < n"
    then show "\<not> evaluate w c (Suc k + j)" using Suc.prems(2) [of "Suc j"] by simp
  qed
  with nk show ?case
    by (subst evaluate_loop.simps) (simp add: emit_emit failed_attempts_def)
qed

text \<open>It returns only if some attempt succeeds.\<close>

lemma evaluate_loop_returns:
  assumes "evaluate_loop w c k s = Some s'"
  shows "\<exists>j. evaluate w c (k + j)"
proof (rule evaluate_loop.raw_induct [OF _ assms, where P = "\<lambda>w c k s s'. \<exists>j. evaluate w c (k + j)"])
  fix f :: "world \<Rightarrow> handle \<Rightarrow> nat \<Rightarrow> system \<Rightarrow> system option" and w c k s s'
  assume IH: "\<And>w c k s s'. f w c k s = Some s' \<Longrightarrow> \<exists>j. evaluate w c (k + j)"
    and step: "(if evaluate w c k then Some (emit [Evaluate c True] s)
                else f w c (Suc k) (emit [Evaluate c False, Sleep 100] s)) = Some s'"
  show "\<exists>j. evaluate w c (k + j)"
  proof (cases "evaluate w c k")
    case True
    then have "evaluate w c (k + 0)" by simp
    then show ?thesis by blast
  next
    case False
    with step have "f w c (Suc k) (emit [Evaluate c False, Sleep 100] s) = Some s'" by simp
    from IH [OF this] obtain j where "evaluate w c (Suc k + j)" by blast
    then have "evaluate w c (k + Suc j)" by simp
    then show ?thesis by blast
  qed
qed

lemma evaluate_loop_never:
  "(\<And>j. \<not> evaluate w c (k + j)) \<Longrightarrow> evaluate_loop w c k s = None"
  using evaluate_loop_returns [of w c k s] by (cases "evaluate_loop w c k s") auto

lemma evaluate_loop_result:
  assumes "evaluate_loop w c k s = Some s'"
  shows "\<exists>n. evaluate w c (k + n) \<and> (\<forall>j<n. \<not> evaluate w c (k + j))
             \<and> s' = emit (failed_attempts c n @ [Evaluate c True]) s"
proof -
  from evaluate_loop_returns [OF assms] obtain j where j: "evaluate w c (k + j)" ..
  define n where "n = (LEAST j. evaluate w c (k + j))"
  have n1: "evaluate w c (k + n)" unfolding n_def using j by (rule LeastI)
  have n2: "\<not> evaluate w c (k + i)" if "i < n" for i
    using that not_less_Least unfolding n_def by blast
  from evaluate_loop_succeeds [OF n1 n2] assms
  have "s' = emit (failed_attempts c n @ [Evaluate c True]) s" by simp
  with n1 n2 show ?thesis by blast
qed

subsection \<open>The path check of deleteSessionFolder\<close>

text \<open>
  C1. The claim: the directory is removed only when the resolved target has the
  resolved root, extended by a separator, as a prefix, and every identifier whose
  resolved path leaves the root is refused with \<^verbatim>\<open>Invalid path\<close> before anything
  is removed. The source tests \<^verbatim>\<open>startsWith(resolvedSessionPath)\<close> without the
  separator. With the root \<^verbatim>\<open>/data/sessions\<close> and the session \<^verbatim>\<open>abc\<close>, whose
  directory is a link, the target resolves to \<^verbatim>\<open>/data/sessions-evil/x\<close>, outside
  the root but with a name that starts like the root's: the test passes, no error
  is raised and the removal is performed.
\<close>

theorem deleteSessionFolder_sibling_prefix:
  "deleteSessionFolder sibling_world ''abc'' one_session =
     (Inr (), \<lparr>sessions = [''abc'' \<mapsto> 7], next_handle = 8,
               trace = [Realpath ''/data/sessions/session-abc/'', Realpath ''/data/sessions'',
                        Rm ''/data/sessions/session-abc/'']\<rparr>)
   \<and> realpath sibling_world ''/data/sessions/session-abc/'' = Inr ''/data/sessions-evil/x''
   \<and> realpath sibling_world ''/data/sessions'' = Inr ''/data/sessions''
   \<and> \<not> startsWith ''/data/sessions-evil/x'' (''/data/sessions'' @ ''/'')"
  by (simp add: deleteSessionFolder_def sibling_world_def quiet_world_def one_session_def Let_def
      emit_def startsWith_def)

subsection \<open>validateSession\<close>

text \<open>
  C2. The claim: when the bounded wait for \<^verbatim>\<open>pupPage\<close> times out, validateSession
  returns \<^verbatim>\<open>{success:false, state:null, message:<timeout reason>}\<close> and performs
  neither the evaluation loop nor the state query. In the source the object is built
  inside the \<^verbatim>\<open>.catch\<close> handler of the awaited promise and dropped. Here the wait
  times out for the registered session \<^verbatim>\<open>abc\<close>; the loop runs three attempts,
  the state is queried, and the result is \<^verbatim>\<open>success: true\<close>.
\<close>

theorem validateSession_after_timeout:
  "waitForNestedObject late_page_world 7 ''pupPage'' = Some (Error ''Timed out waiting for nested object'')
   \<and> validateSession late_page_world ''abc'' one_session =
     Some (Inr \<lparr>success = True, state = Some ''CONNECTED'', message = ''session_connected''\<rparr>,
           \<lparr>sessions = [''abc'' \<mapsto> 7], next_handle = 8,
            trace = [WaitForNestedObject 7 ''pupPage'' (Some (Error ''Timed out waiting for nested object'')),
                     Evaluate 7 False, Sleep 100, Evaluate 7 False, Sleep 100, Evaluate 7 True,
                     GetState 7]\<rparr>)"
  by (simp add: validateSession_def validateSession_try_def late_page_world_def quiet_world_def
      one_session_def emit_def evaluate_loop.simps)

text \<open>
  When the page never becomes usable, whether or not the wait timed out, the
  function does not return at all.
\<close>

lemma validateSession_never_returns:
  assumes "sessions s sessionId = Some c" and "\<And>k. \<not> evaluate w c k"
  shows "validateSession w sessionId s = None"
proof -
  have "evaluate_loop w c 0 t = None" for t
    by (rule evaluate_loop_never) (simp add: assms(2))
  then show ?thesis
    by (simp add: validateSession_def validateSession_try_def assms(1))
qed


lemma validateSession_present:
  assumes "sessions s sessionId = Some c" and "evaluate w c n"
    and "\<forall>j<n. \<not> evaluate w c j"
  shows "validateSession w sessionId s =
     Some (Inr (case getState w c of
                  Inl e \<Rightarrow> \<lparr>success = False, state = None, message = error_message e\<rparr>
                | Inr st \<Rightarrow>
                    if st \<noteq> ''CONNECTED''
                    then \<lparr>success = False, state = Some st, message = ''session_not_connected''\<rparr>
                    else \<lparr>success = True, state = Some st, message = ''session_connected''\<rparr>),
           emit (WaitForNestedObject c ''pupPage'' (waitForNestedObject w c ''pupPage'')
                 # failed_attempts c n @ [Evaluate c True, GetState c]) s)"
proof -
  have "evaluate_loop w c 0 t = Some (emit (failed_attempts c n @ [Evaluate c True]) t)" for t
    by (rule evaluate_loop_succeeds) (simp_all add: assms)
  then show ?thesis
    by (simp add: validateSession_def validateSession_try_def assms(1) emit_emit
        split: sum.splits)
qed



text \<open>
  C9 as stated: every exception raised after the lookup, also one thrown by an
  evaluation, makes the function return \<^verbatim>\<open>{success:false, state:null,
  message:<error text>}\<close>. Here the first evaluation throws; the loop ignores the
  error, tries again, and the function returns \<^verbatim>\<open>success: true\<close>.
\<close>

theorem validateSession_retry_counterexample:
  "\<not> evaluate retry_world 7 0
   \<and> validateSession retry_world ''abc'' one_session =
     Some (Inr \<lparr>success = True, state = Some ''CONNECTED'', message = ''session_connected''\<rparr>,
           \<lparr>sessions = [''abc'' \<mapsto> 7], next_handle = 8,
            trace = [WaitForNestedObject 7 ''pupPage'' None, Evaluate 7 False, Sleep 100,
                     Evaluate 7 True, GetState 7]\<rparr>)"
  by (simp add: validateSession_def validateSession_try_def retry_world_def quiet_world_def
      one_session_def emit_def evaluate_loop.simps)

text \<open>
  C9 (as amended). validateSession never throws. When the wait for the page has
  succeeded, an exception thrown by an evaluation is caught inside the loop and the
  evaluation is repeated after a pause: if the attempt number \<open>n\<close> is the first to
  succeed, the function returns after exactly \<open>n\<close> failed attempts, the successful one
  and the query of the state, with the result that the query determines: an exception
  thrown by it becomes \<^verbatim>\<open>{success:false, state:null, message:<error text>}\<close>, a
  state other than \<^verbatim>\<open>CONNECTED\<close> gives \<^verbatim>\<open>session_not_connected\<close>, and
  \<^verbatim>\<open>CONNECTED\<close> gives \<^verbatim>\<open>session_connected\<close>. If no attempt ever succeeds, the
  function does not return.
\<close>

theorem validateSession_never_throws:
  "(\<forall>e s'. validateSession w sessionId s \<noteq> Some (Inl e, s'))
   \<and> (\<forall>c n. sessions s sessionId = Some c \<and> waitForNestedObject w c ''pupPage'' = None
            \<and> evaluate w c n \<and> (\<forall>j<n. \<not> evaluate w c j) \<longrightarrow>
         validateSession w sessionId s =
           Some (Inr (case getState w c of
                        Inl e \<Rightarrow> \<lparr>success = False, state = None, message = error_message e\<rparr>
                      | Inr st \<Rightarrow>
                          if st \<noteq> ''CONNECTED''
                          then \<lparr>success = False, state = Some st, message = ''session_not_connected''\<rparr>
                          else \<lparr>success = True, state = Some st, message = ''session_connected''\<rparr>),
                 emit (WaitForNestedObject c ''pupPage'' None
                       # failed_attempts c n @ [Evaluate c True, GetState c]) s))
   \<and> (\<forall>c. sessions s sessionId = Some c \<and> waitForNestedObject w c ''pupPage'' = None
            \<and> (\<forall>k. \<not> evaluate w c k) \<longrightarrow>
         validateSession w sessionId s = None)"
proof (intro conjI allI impI)
  fix e s'
  show "validateSession w sessionId s \<noteq> Some (Inl e, s')"
    by (auto simp: validateSession_def split: option.splits prod.splits sum.splits)
next
  fix c n
  assume a: "sessions s sessionId = Some c \<and> waitForNestedObject w c ''pupPage'' = None
            \<and> evaluate w c n \<and> (\<forall>j<n. \<not> evaluate w c j)"
  then have p: "sessions s sessionId = Some c" "evaluate w c n" "\<forall>j<n. \<not> evaluate w c j"
    and q: "waitForNestedObject w c ''pupPage'' = None"
    by simp_all
  show "validateSession w sessionId s =
           Some (Inr (case getState w c of
                        Inl e \<Rightarrow> \<lparr>success = False, state = None, message = error_message e\<rparr>
                      | Inr st \<Rightarrow>
                          if st \<noteq> ''CONNECTED''
                          then \<lparr>success = False, state = Some st, message = ''session_not_connected''\<rparr>
                          else \<lparr>success = True, state = Some st, message = ''session_connected''\<rparr>),
                 emit (WaitForNestedObject c ''pupPage'' None
                       # failed_attempts c n @ [Evaluate c True, GetState c]) s)"
    using validateSession_present [OF p] unfolding q .
next
  fix c
  assume a: "sessions s sessionId = Some c \<and> waitForNestedObject w c ''pupPage'' = None
            \<and> (\<forall>k. \<not> evaluate w c k)"
  show "validateSession w sessionId s = None"
    by (rule validateSession_never_returns [of s sessionId c]) (use a in simp_all)
qed

theorem validateSession_never_throws_witness:
  "sessions one_session ''abc'' = Some 7 \<and> waitForNestedObject flaky_world 7 ''pupPage'' = None
   \<and> \<not> evaluate flaky_world 7 0 \<and> \<not> evaluate flaky_world 7 1 \<and> evaluate flaky_world 7 2
   \<and> getState flaky_world 7 = Inl (Error ''Protocol error'')
   \<and> validateSession flaky_world ''abc'' one_session =
        Some (Inr \<lparr>success = False, state = None, message = ''Protocol error''\<rparr>,
              emit [WaitForNestedObject 7 ''pupPage'' None, Evaluate 7 False, Sleep 100,
                    Evaluate 7 False, Sleep 100, Evaluate 7 True, GetState 7] one_session)"
proof -
  have h1: "sessions one_session ''abc'' = Some 7" by (simp add: one_session_def)
  have h2: "waitForNestedObject flaky_world 7 ''pupPage'' = None"
    by (simp add: flaky_world_def quiet_world_def)
  have h3: "\<not> evaluate flaky_world 7 0" "\<not> evaluate flaky_world 7 1" "evaluate flaky_world 7 2"
    by (simp_all add: flaky_world_def quiet_world_def)
  have h4: "\<forall>j<2. \<not> evaluate flaky_world 7 j" by (simp add: flaky_world_def quiet_world_def)
  have h5: "getState flaky_world 7 = Inl (Error ''Protocol error'')"
    by (simp add: flaky_world_def quiet_world_def)
  have h: "sessions one_session ''abc'' = Some 7 \<and> waitForNestedObject flaky_world 7 ''pupPage'' = None
            \<and> evaluate flaky_world 7 2 \<and> (\<forall>j<2. \<not> evaluate flaky_world 7 j)"
    using h1 h2 h3(3) h4 by blast
  have fa: "failed_attempts 7 2 = [Evaluate 7 False, Sleep 100, Evaluate 7 False, Sleep 100]"
    by (simp add: failed_attempts_def numeral_2_eq_2)
  from validateSession_never_throws [of flaky_world "''abc''" one_session,
      THEN conjunct2, THEN conjunct1, rule_format, OF h]
  have "validateSession flaky_world ''abc'' one_session =
        Some (Inr \<lparr>success = False, state = None, message = ''Protocol error''\<rparr>,
              emit [WaitForNestedObject 7 ''pupPage'' None, Evaluate 7 False, Sleep 100,
                    Evaluate 7 False, Sleep 100, Evaluate 7 True, GetState 7] one_session)"
    unfolding h5 fa by simp
  with h1 h2 h3 h5 show ?thesis by blast
qed

subsection \<open>deleteSession\<close>


text \<open>What \<^verbatim>\<open>deleteSessionFolder\<close> does, by outcome.\<close>

lemma deleteSessionFolder_unfold:
  "deleteSessionFolder w sessionId s =
     (case realpath w (targetDirPath w sessionId) of
        Inl e \<Rightarrow> (Inl e, emit [Realpath (targetDirPath w sessionId)] s)
      | Inr rt \<Rightarrow>
          (case realpath w (sessionFolderPath w) of
             Inl e \<Rightarrow> (Inl e, emit [Realpath (targetDirPath w sessionId),
                                     Realpath (sessionFolderPath w)] s)
           | Inr rr \<Rightarrow>
               if \<not> startsWith rt rr
               then (Inl (Error ''Invalid path''),
                     emit [Realpath (targetDirPath w sessionId), Realpath (sessionFolderPath w)] s)
               else (case rm w (targetDirPath w sessionId) of
                       Some e \<Rightarrow> (Inl e, emit [Realpath (targetDirPath w sessionId),
                                               Realpath (sessionFolderPath w),
                                               Rm (targetDirPath w sessionId)] s)
                     | None \<Rightarrow> (Inr (), emit [Realpath (targetDirPath w sessionId),
                                              Realpath (sessionFolderPath w),
                                              Rm (targetDirPath w sessionId)] s))))"
  by (simp add: deleteSessionFolder_def targetDirPath_def Let_def emit_emit
      split: sum.splits option.splits)

text \<open>A path that the guard of the specification approves passes the test of the source.\<close>

lemma PathGuard_spec_resolved:
  assumes "PathGuard_spec w sessionId"
  obtains rt rr where "realpath w (targetDirPath w sessionId) = Inr rt"
    and "realpath w (sessionFolderPath w) = Inr rr" and "startsWith rt rr"
proof -
  from assms obtain rt rr where r: "realpath w (targetDirPath w sessionId) = Inr rt"
    "realpath w (sessionFolderPath w) = Inr rr" and p: "startsWith rt (rr @ ''/'')"
    by (auto simp: PathGuard_spec_def split: sum.splits)
  from p have "startsWith rt rr" by (auto simp: startsWith_def dest: append_prefixD)
  with r show ?thesis by (rule that)
qed

lemma deleteSession_not_connected_unfold:
  assumes "sessions s sessionId = Some c" and "\<not> success v"
    and "message v = ''session_not_connected''"
  shows "deleteSession w sessionId v s =
     (case destroy w c of
        Some e \<Rightarrow> (Inl e, emit [Destroy c] s)
      | None \<Rightarrow>
          (case deleteSessionFolder w sessionId (emit [Destroy c] s) of
             (Inl e, s1) \<Rightarrow> (Inl e, s1)
           | (Inr u, s1) \<Rightarrow>
               (Inr (), (emit [SessionsDelete sessionId] s1)
                          \<lparr>sessions := (sessions s1)(sessionId := None)\<rparr>)))"
  using assms by (simp add: deleteSession_def)

text \<open>Every way the forced teardown can end.\<close>

lemma deleteSession_teardown_cases:
  assumes "sessions s sessionId = Some c" and "\<not> success v"
    and "message v = ''session_not_connected''"
    and "deleteSession w sessionId v s = (r, s')"
  obtains
    (destroy_throws) e where "destroy w c = Some e" "r = Inl e" "s' = emit [Destroy c] s"
  | (target_unresolved) e where "destroy w c = None"
      "realpath w (targetDirPath w sessionId) = Inl e" "r = Inl e"
      "s' = emit [Destroy c, Realpath (targetDirPath w sessionId)] s"
  | (root_unresolved) rt e where "destroy w c = None"
      "realpath w (targetDirPath w sessionId) = Inr rt"
      "realpath w (sessionFolderPath w) = Inl e" "r = Inl e"
      "s' = emit [Destroy c, Realpath (targetDirPath w sessionId), Realpath (sessionFolderPath w)] s"
  | (refused) rt rr where "destroy w c = None"
      "realpath w (targetDirPath w sessionId) = Inr rt"
      "realpath w (sessionFolderPath w) = Inr rr" "\<not> startsWith rt rr"
      "r = Inl (Error ''Invalid path'')"
      "s' = emit [Destroy c, Realpath (targetDirPath w sessionId), Realpath (sessionFolderPath w)] s"
  | (removal_throws) rt rr e where "destroy w c = None"
      "realpath w (targetDirPath w sessionId) = Inr rt"
      "realpath w (sessionFolderPath w) = Inr rr" "startsWith rt rr"
      "rm w (targetDirPath w sessionId) = Some e" "r = Inl e"
      "s' = emit [Destroy c, Realpath (targetDirPath w sessionId), Realpath (sessionFolderPath w),
                 Rm (targetDirPath w sessionId)] s"
  | (removed) rt rr where "destroy w c = None"
      "realpath w (targetDirPath w sessionId) = Inr rt"
      "realpath w (sessionFolderPath w) = Inr rr" "startsWith rt rr"
      "rm w (targetDirPath w sessionId) = None" "r = Inr ()"
      "s' = (emit [Destroy c, Realpath (targetDirPath w sessionId), Realpath (sessionFolderPath w),
                  Rm (targetDirPath w sessionId), SessionsDelete sessionId] s)
             \<lparr>sessions := (sessions s)(sessionId := None)\<rparr>"
proof -
  note u = deleteSession_not_connected_unfold [OF assms(1-3), of w] assms(4)
  show ?thesis
  proof (cases "destroy w c")
    case (Some e)
    with u have "r = Inl e" "s' = emit [Destroy c] s" by simp_all
    with Some show ?thesis by (intro destroy_throws [of e]) simp_all
  next
    case None
    show ?thesis
    proof (cases "realpath w (targetDirPath w sessionId)")
      case (Inl e)
      with u None have "r = Inl e" "s' = emit [Destroy c, Realpath (targetDirPath w sessionId)] s"
        by (simp_all add: deleteSessionFolder_unfold emit_emit)
      with None Inl show ?thesis by (intro target_unresolved [of e]) simp_all
    next
      case rt: (Inr rt)
      show ?thesis
      proof (cases "realpath w (sessionFolderPath w)")
        case (Inl e)
        with u None rt have "r = Inl e"
          "s' = emit [Destroy c, Realpath (targetDirPath w sessionId),
                      Realpath (sessionFolderPath w)] s"
          by (simp_all add: deleteSessionFolder_unfold emit_emit)
        with None rt Inl show ?thesis by (intro root_unresolved [of rt e]) simp_all
      next
        case rr: (Inr rr)
        show ?thesis
        proof (cases "startsWith rt rr")
          case False
          with u None rt rr have "r = Inl (Error ''Invalid path'')"
            "s' = emit [Destroy c, Realpath (targetDirPath w sessionId),
                        Realpath (sessionFolderPath w)] s"
            by (simp_all add: deleteSessionFolder_unfold emit_emit)
          with None rt rr False show ?thesis by (intro refused [of rt rr]) simp_all
        next
          case True
          show ?thesis
          proof (cases "rm w (targetDirPath w sessionId)")
            case (Some e)
            with u None rt rr True have "r = Inl e"
              "s' = emit [Destroy c, Realpath (targetDirPath w sessionId),
                          Realpath (sessionFolderPath w), Rm (targetDirPath w sessionId)] s"
              by (simp_all add: deleteSessionFolder_unfold emit_emit)
            with None rt rr True Some show ?thesis by (intro removal_throws [of rt rr e]) simp_all
          next
            case rmn: None
            with u None rt rr True have "r = Inr ()"
              "s' = (emit [Destroy c, Realpath (targetDirPath w sessionId),
                           Realpath (sessionFolderPath w), Rm (targetDirPath w sessionId),
                           SessionsDelete sessionId] s)
                     \<lparr>sessions := (sessions s)(sessionId := None)\<rparr>"
              by (simp_all add: deleteSessionFolder_unfold emit_def)
            with None rt rr True rmn show ?thesis by (intro removed [of rt rr]) simp_all
          qed
        qed
      qed
    qed
  qed
qed


text \<open>
  C3 (as amended). For a session in the registry and a validation result that is not
  a success and has the message \<^verbatim>\<open>session_not_connected\<close>, deleteSession always
  destroys the handle first. When destroy has succeeded, the path guard approves the
  path and the removal succeeds, all three effects occur in the order destroy,
  removal of the directory, removal of the registry entry. When destroy throws, a
  path does not resolve, the resolved target does not start with the resolved root
  (\<^verbatim>\<open>Invalid path\<close>) or the removal throws, that error propagates, nothing after
  the failing step is done and the registry is unchanged. The entry is removed only
  in a call that returns, after the destroy and the removal. (Nothing is said of a
  resolved target that starts with the root's text without lying under it.)
\<close>

theorem deleteSession_not_connected_order:
  assumes "sessions s sessionId = Some c" and "\<not> success v"
    and "message v = ''session_not_connected''"
    and "deleteSession w sessionId v s = (r, s')"
  shows "take 1 (new_trace s s') = [Destroy c]
     \<and> (\<forall>e. destroy w c = Some e \<longrightarrow> r = Inl e \<and> new_trace s s' = [Destroy c])
     \<and> (\<forall>e. destroy w c = None \<and> realpath w (targetDirPath w sessionId) = Inl e \<longrightarrow>
            r = Inl e \<and> new_trace s s' = [Destroy c, Realpath (targetDirPath w sessionId)])
     \<and> (\<forall>rt e. destroy w c = None \<and> realpath w (targetDirPath w sessionId) = Inr rt
              \<and> realpath w (sessionFolderPath w) = Inl e \<longrightarrow>
            r = Inl e
            \<and> new_trace s s' = [Destroy c, Realpath (targetDirPath w sessionId),
                                 Realpath (sessionFolderPath w)])
     \<and> (\<forall>rt rr. destroy w c = None \<and> realpath w (targetDirPath w sessionId) = Inr rt
              \<and> realpath w (sessionFolderPath w) = Inr rr \<and> \<not> startsWith rt rr \<longrightarrow>
            r = Inl (Error ''Invalid path'')
            \<and> new_trace s s' = [Destroy c, Realpath (targetDirPath w sessionId),
                                 Realpath (sessionFolderPath w)])
     \<and> (\<forall>e. destroy w c = None \<and> PathGuard_spec w sessionId
              \<and> rm w (targetDirPath w sessionId) = Some e \<longrightarrow>
            r = Inl e
            \<and> new_trace s s' = [Destroy c, Realpath (targetDirPath w sessionId),
                                 Realpath (sessionFolderPath w), Rm (targetDirPath w sessionId)])
     \<and> (destroy w c = None \<and> PathGuard_spec w sessionId
              \<and> rm w (targetDirPath w sessionId) = None \<longrightarrow>
            r = Inr ()
            \<and> new_trace s s' = [Destroy c, Realpath (targetDirPath w sessionId),
                                 Realpath (sessionFolderPath w), Rm (targetDirPath w sessionId),
                                 SessionsDelete sessionId]
            \<and> sessions s' = (sessions s)(sessionId := None))
     \<and> (\<forall>e. r = Inl e \<longrightarrow>
            sessions s' = sessions s \<and> SessionsDelete sessionId \<notin> set (new_trace s s'))
     \<and> (r = Inr () \<longrightarrow>
            destroy w c = None \<and> rm w (targetDirPath w sessionId) = None
            \<and> new_trace s s' = [Destroy c, Realpath (targetDirPath w sessionId),
                                 Realpath (sessionFolderPath w), Rm (targetDirPath w sessionId),
                                 SessionsDelete sessionId]
            \<and> sessions s' = (sessions s)(sessionId := None))"
  using assms
proof (cases rule: deleteSession_teardown_cases)
  case (destroy_throws e)
  then show ?thesis by (simp add: new_trace_emit sessions_emit)
next
  case (target_unresolved e)
  then show ?thesis by (simp add: new_trace_emit sessions_emit PathGuard_spec_def)
next
  case (root_unresolved rt e)
  then show ?thesis by (simp add: new_trace_emit sessions_emit PathGuard_spec_def)
next
  case (refused rt rr)
  have "\<not> PathGuard_spec w sessionId"
  proof
    assume "PathGuard_spec w sessionId"
    then obtain rt' rr' where "realpath w (targetDirPath w sessionId) = Inr rt'"
      "realpath w (sessionFolderPath w) = Inr rr'" "startsWith rt' rr'"
      by (rule PathGuard_spec_resolved)
    with refused(2-4) show False by simp
  qed
  with refused show ?thesis by (simp add: new_trace_emit sessions_emit)
next
  case (removal_throws rt rr e)
  then show ?thesis by (simp add: new_trace_emit sessions_emit)
next
  case (removed rt rr)
  then show ?thesis by (simp add: new_trace_def emit_def)
qed

theorem deleteSession_not_connected_order_witness:
  "sessions one_session ''abc'' = Some 7 \<and> \<not> success not_connected
   \<and> message not_connected = ''session_not_connected''
   \<and> destroy folder_world 7 = None \<and> PathGuard_spec folder_world ''abc''
   \<and> rm folder_world ''/data/sessions/session-abc/'' = None
   \<and> fst (deleteSession folder_world ''abc'' not_connected one_session) = Inr ()
   \<and> new_trace one_session (snd (deleteSession folder_world ''abc'' not_connected one_session))
       = [Destroy 7, Realpath ''/data/sessions/session-abc/'', Realpath ''/data/sessions'',
          Rm ''/data/sessions/session-abc/'', SessionsDelete ''abc'']
   \<and> sessions (snd (deleteSession folder_world ''abc'' not_connected one_session)) ''abc'' = None"
proof -
  have h1: "sessions one_session ''abc'' = Some 7" by (simp add: one_session_def)
  have h2: "\<not> success not_connected" by (simp add: not_connected_def)
  have h3: "message not_connected = ''session_not_connected''" by (simp add: not_connected_def)
  obtain r s' where d: "deleteSession folder_world ''abc'' not_connected one_session = (r, s')"
    by (cases "deleteSession folder_world ''abc'' not_connected one_session")
  have paths: "targetDirPath folder_world ''abc'' = ''/data/sessions/session-abc/''"
    "sessionFolderPath folder_world = ''/data/sessions''"
    by (simp_all add: folder_world_def quiet_world_def targetDirPath_def)
  have k1: "destroy folder_world 7 = None" by (simp add: folder_world_def quiet_world_def)
  have k2: "PathGuard_spec folder_world ''abc''"
    by (simp add: PathGuard_spec_def paths) (simp add: folder_world_def quiet_world_def startsWith_def)
  have k3: "rm folder_world ''/data/sessions/session-abc/'' = None"
    by (simp add: folder_world_def quiet_world_def)
  have ok: "destroy folder_world 7 = None \<and> PathGuard_spec folder_world ''abc''
    \<and> rm folder_world (targetDirPath folder_world ''abc'') = None"
    using k1 k2 k3 unfolding paths by blast
  note T = deleteSession_not_connected_order [OF h1 h2 h3 d]
  note G = T [THEN conjunct2, THEN conjunct2, THEN conjunct2, THEN conjunct2, THEN conjunct2,
      THEN conjunct2, THEN conjunct1, rule_format, OF ok]
  have r: "r = Inr ()" by (rule G [THEN conjunct1])
  have tr: "new_trace one_session s'
       = [Destroy 7, Realpath ''/data/sessions/session-abc/'', Realpath ''/data/sessions'',
          Rm ''/data/sessions/session-abc/'', SessionsDelete ''abc'']"
    using G [THEN conjunct2, THEN conjunct1] unfolding paths .
  have se: "sessions s' = (sessions one_session)(''abc'' := None)"
    by (rule G [THEN conjunct2, THEN conjunct2])
  have "fst (deleteSession folder_world ''abc'' not_connected one_session) = Inr ()"
    using d r by simp
  moreover have "new_trace one_session (snd (deleteSession folder_world ''abc'' not_connected one_session))
       = [Destroy 7, Realpath ''/data/sessions/session-abc/'', Realpath ''/data/sessions'',
          Rm ''/data/sessions/session-abc/'', SessionsDelete ''abc'']"
    using d tr by simp
  moreover have "sessions (snd (deleteSession folder_world ''abc'' not_connected one_session)) ''abc'' = None"
    using d se by simp
  ultimately show ?thesis using h1 h2 h3 k1 k2 k3 by blast
qed

text \<open>
  C3 as stated promises all three effects for every session in the registry. Here
  the session is registered, the message is \<^verbatim>\<open>session_not_connected\<close>, the handle
  is destroyed and the path guard approves the path, but the removal of the
  directory throws: the error propagates and the entry stays in the registry.
\<close>

theorem deleteSession_removal_fails_counterexample:
  "sessions one_session ''abc'' = Some 7
   \<and> message not_connected = ''session_not_connected''
   \<and> destroy busy_world 7 = None
   \<and> PathGuard_spec busy_world ''abc''
   \<and> deleteSession busy_world ''abc'' not_connected one_session =
       (Inl (Error ''EBUSY''),
        \<lparr>sessions = [''abc'' \<mapsto> 7], next_handle = 8,
         trace = [Destroy 7, Realpath ''/data/sessions/session-abc/'', Realpath ''/data/sessions'',
                  Rm ''/data/sessions/session-abc/'']\<rparr>)"
  by (simp add: deleteSession_def deleteSessionFolder_def busy_world_def folder_world_def
      quiet_world_def one_session_def not_connected_def emit_def startsWith_def Let_def
      PathGuard_spec_def targetDirPath_def)



text \<open>
  C5. With a validation result whose \<^verbatim>\<open>success\<close> is true, deleteSession leaves
  the registry as it is and touches no path: the only thing it can add to the trace
  is the logout of the session's handle. Nothing is resolved, removed or destroyed
  and no entry is deleted.
\<close>

theorem deleteSession_connected_frame:
  assumes "success v" and "deleteSession w sessionId v s = (r, s')"
  shows "sessions s' = sessions s
     \<and> new_trace s s' = (case sessions s sessionId of None \<Rightarrow> [] | Some c \<Rightarrow> [Logout c])
     \<and> (\<forall>p. Realpath p \<notin> set (new_trace s s') \<and> Rm p \<notin> set (new_trace s s'))
     \<and> (\<forall>i. SessionsDelete i \<notin> set (new_trace s s'))
     \<and> (\<forall>c. Destroy c \<notin> set (new_trace s s'))"
  using assms
  by (auto simp: deleteSession_def new_trace_def emit_def split: option.splits)

theorem deleteSession_connected_frame_witness:
  "success connected
   \<and> sessions (snd (deleteSession folder_world ''abc'' connected one_session)) = sessions one_session
   \<and> new_trace one_session (snd (deleteSession folder_world ''abc'' connected one_session)) = [Logout 7]"
proof -
  have h: "success connected" by (simp add: connected_def)
  have h1: "sessions one_session ''abc'' = Some 7" by (simp add: one_session_def)
  obtain r s' where d: "deleteSession folder_world ''abc'' connected one_session = (r, s')"
    by (cases "deleteSession folder_world ''abc'' connected one_session")
  note T = deleteSession_connected_frame [OF h d]
  have se: "sessions s' = sessions one_session" by (rule T [THEN conjunct1])
  have "new_trace one_session s' = (case sessions one_session ''abc'' of None \<Rightarrow> [] | Some c \<Rightarrow> [Logout c])"
    by (rule T [THEN conjunct2, THEN conjunct1])
  then have tr: "new_trace one_session s' = [Logout 7]" unfolding h1 by simp
  have "sessions (snd (deleteSession folder_world ''abc'' connected one_session)) = sessions one_session"
    using d se by simp
  moreover have "new_trace one_session (snd (deleteSession folder_world ''abc'' connected one_session)) = [Logout 7]"
    using d tr by simp
  ultimately show ?thesis using h by blast
qed

text \<open>
  C8 as stated: for an identifier without an entry deleteSession completes without
  error whatever the validation result. The source does not look the identifier up
  before it calls a method on \<^verbatim>\<open>sessions.get(sessionId)\<close>: with a result that
  says connected, or not connected, the call throws a \<^verbatim>\<open>TypeError\<close>.
\<close>

theorem deleteSession_absent_counterexample:
  "sessions no_sessions ''abc'' = None
   \<and> deleteSession quiet_world ''abc'' connected no_sessions = (Inl (TypeError ''logout''), no_sessions)
   \<and> deleteSession quiet_world ''abc'' not_connected no_sessions = (Inl (TypeError ''destroy''), no_sessions)"
  by (simp add: deleteSession_def no_sessions_def connected_def not_connected_def)

text \<open>
  C8 (as amended). deleteSession decides by the validation result it is given. For
  an identifier without an entry validateSession yields the result
  \<^verbatim>\<open>session_not_found\<close> and changes nothing, and deleteSession called with that
  result, or with any result that is not a success and whose message is not
  \<^verbatim>\<open>session_not_connected\<close>, completes without error and without any effect.
\<close>

theorem deleteSession_absent_not_found:
  assumes "sessions s sessionId = None"
  shows "validateSession w sessionId s =
           Some (Inr \<lparr>success = False, state = None, message = ''session_not_found''\<rparr>, s)
     \<and> deleteSession w sessionId \<lparr>success = False, state = None, message = ''session_not_found''\<rparr> s
         = (Inr (), s)
     \<and> (\<forall>v. \<not> success v \<and> message v \<noteq> ''session_not_connected'' \<longrightarrow>
            deleteSession w sessionId v s = (Inr (), s))"
  using assms by (simp add: validateSession_def validateSession_try_def deleteSession_def)

theorem deleteSession_absent_not_found_witness:
  "sessions no_sessions ''abc'' = None
   \<and> validateSession quiet_world ''abc'' no_sessions = Some (Inr not_found, no_sessions)
   \<and> deleteSession quiet_world ''abc'' not_found no_sessions = (Inr (), no_sessions)"
proof -
  have h: "sessions no_sessions ''abc'' = None" by (simp add: no_sessions_def)
  note T = deleteSession_absent_not_found [OF h, of quiet_world]
  have "validateSession quiet_world ''abc'' no_sessions = Some (Inr not_found, no_sessions)"
    unfolding not_found_def by (rule T [THEN conjunct1])
  moreover have "deleteSession quiet_world ''abc'' not_found no_sessions = (Inr (), no_sessions)"
    unfolding not_found_def by (rule T [THEN conjunct2, THEN conjunct1])
  ultimately show ?thesis using h by blast
qed

subsection \<open>setupSession and the message listener\<close>

text \<open>The three outcomes of one call of setupSession.\<close>

lemma setupSession_fresh:
  "sessions s sessionId = None \<Longrightarrow> new_Client w sessionId = None \<Longrightarrow>
   setupSession w sessionId s =
     (\<lparr>setup_success = True, setup_message = ''Session initiated successfully'',
       client = Some (next_handle s)\<rparr>,
      \<lparr>sessions = (sessions s)(sessionId \<mapsto> next_handle s), next_handle = Suc (next_handle s),
       trace = trace s @ [NewClient (next_handle s) sessionId, Initialize (next_handle s)]
                 @ map (On (next_handle s)) event_names @ [SessionsSet sessionId (next_handle s)]\<rparr>)"
  by (simp add: setupSession_def Let_def emit_def)

lemma setupSession_existing:
  "sessions s sessionId = Some c \<Longrightarrow>
   setupSession w sessionId s =
     (\<lparr>setup_success = False, setup_message = ''Session already exists for: '' @ sessionId,
       client = Some c\<rparr>, s)"
  by (simp add: setupSession_def)

lemma setupSession_constructor_throws:
  "sessions s sessionId = None \<Longrightarrow> new_Client w sessionId = Some e \<Longrightarrow>
   setupSession w sessionId s =
     (\<lparr>setup_success = False, setup_message = error_message e, client = None\<rparr>, s)"
  by (simp add: setupSession_def)

text \<open>
  C7. For an identifier whose client can be constructed, two calls of setupSession
  leave exactly one entry for it. If it was not registered, the first call
  constructs the client, registers it and reports success; if it was, the first call
  reports the existing handle and changes nothing. In both cases the second call
  reports \<^verbatim>\<open>success: false\<close> with the message \<^verbatim>\<open>Session already exists for:
  <id>\<close>, returns the handle that the first call returned and the registry holds, and
  changes nothing; the two calls add no other key and change no other entry.
\<close>

theorem setupSession_idempotent:
  assumes "new_Client w sessionId = None"
    and "setupSession w sessionId s = (r1, s1)" and "setupSession w sessionId s1 = (r2, s2)"
  shows "(sessions s sessionId = None \<longrightarrow>
            r1 = \<lparr>setup_success = True, setup_message = ''Session initiated successfully'',
                  client = Some (next_handle s)\<rparr>
            \<and> sessions s1 = (sessions s)(sessionId \<mapsto> next_handle s))
     \<and> (\<forall>c. sessions s sessionId = Some c \<longrightarrow>
            r1 = \<lparr>setup_success = False,
                  setup_message = ''Session already exists for: '' @ sessionId, client = Some c\<rparr>
            \<and> s1 = s)
     \<and> (\<exists>c. client r1 = Some c \<and> sessions s1 sessionId = Some c
            \<and> r2 = \<lparr>setup_success = False,
                     setup_message = ''Session already exists for: '' @ sessionId, client = Some c\<rparr>)
     \<and> s2 = s1
     \<and> dom (sessions s2) = insert sessionId (dom (sessions s))
     \<and> (\<forall>i. i \<noteq> sessionId \<longrightarrow> sessions s2 i = sessions s i)"
proof (cases "sessions s sessionId")
  case None
  from setupSession_fresh [OF None assms(1)] assms(2)
  have r1: "r1 = \<lparr>setup_success = True, setup_message = ''Session initiated successfully'',
                  client = Some (next_handle s)\<rparr>"
    and s1: "sessions s1 = (sessions s)(sessionId \<mapsto> next_handle s)"
    by simp_all
  from s1 have reg: "sessions s1 sessionId = Some (next_handle s)" by simp
  from setupSession_existing [OF reg, of w] assms(3)
  have "r2 = \<lparr>setup_success = False,
      setup_message = ''Session already exists for: '' @ sessionId, client = Some (next_handle s)\<rparr>"
    and "s2 = s1" by simp_all
  with None r1 s1 show ?thesis by auto
next
  case (Some c)
  from setupSession_existing [OF Some, of w] assms(2)
  have r1: "r1 = \<lparr>setup_success = False,
      setup_message = ''Session already exists for: '' @ sessionId, client = Some c\<rparr>"
    and s1: "s1 = s" by simp_all
  from setupSession_existing [OF Some, of w] assms(3) s1
  have "r2 = \<lparr>setup_success = False,
      setup_message = ''Session already exists for: '' @ sessionId, client = Some c\<rparr>"
    and "s2 = s" by simp_all
  with Some r1 s1 show ?thesis by auto
qed

theorem setupSession_idempotent_witness:
  "new_Client quiet_world ''abc'' = None
   \<and> fst (setupSession quiet_world ''abc'' no_sessions) =
      \<lparr>setup_success = True, setup_message = ''Session initiated successfully'', client = Some 0\<rparr>
   \<and> fst (setupSession quiet_world ''abc'' (snd (setupSession quiet_world ''abc'' no_sessions))) =
      \<lparr>setup_success = False, setup_message = ''Session already exists for: abc'', client = Some 0\<rparr>
   \<and> dom (sessions (snd (setupSession quiet_world ''abc''
             (snd (setupSession quiet_world ''abc'' no_sessions))))) = {''abc''}"
proof -
  have e: "new_Client quiet_world ''abc'' = None" by (simp add: quiet_world_def)
  have n: "sessions no_sessions ''abc'' = None" and nh: "next_handle no_sessions = 0"
    and d0: "dom (sessions no_sessions) = {}"
    by (simp_all add: no_sessions_def)
  obtain r1 s1 where a: "setupSession quiet_world ''abc'' no_sessions = (r1, s1)"
    by (cases "setupSession quiet_world ''abc'' no_sessions")
  obtain r2 s2 where b: "setupSession quiet_world ''abc'' s1 = (r2, s2)"
    by (cases "setupSession quiet_world ''abc'' s1")
  note T = setupSession_idempotent [OF e a b]
  from T [THEN conjunct1, rule_format, OF n]
  have r1: "r1 = \<lparr>setup_success = True, setup_message = ''Session initiated successfully'',
                  client = Some 0\<rparr>"
    unfolding nh by (rule conjunct1)
  from T [THEN conjunct2, THEN conjunct2, THEN conjunct1] r1
  have r2: "r2 = \<lparr>setup_success = False,
      setup_message = ''Session already exists for: abc'', client = Some 0\<rparr>"
    by auto
  have "dom (sessions s2) = insert ''abc'' (dom (sessions no_sessions))"
    by (rule T [THEN conjunct2, THEN conjunct2, THEN conjunct2, THEN conjunct2, THEN conjunct1])
  then have d: "dom (sessions s2) = {''abc''}" unfolding d0 by simp
  have "fst (setupSession quiet_world ''abc'' no_sessions) = r1" using a by simp
  moreover have "fst (setupSession quiet_world ''abc'' (snd (setupSession quiet_world ''abc'' no_sessions))) = r2"
    using a b by simp
  moreover have "sessions (snd (setupSession quiet_world ''abc''
             (snd (setupSession quiet_world ''abc'' no_sessions)))) = sessions s2"
    using a b by simp
  ultimately show ?thesis using e r1 r2 d by simp
qed

text \<open>
  C6. For an incoming message that carries media of a declared size: when the size
  is strictly below the threshold, the listener forwards the message, fetches the
  media and forwards what the fetch yields as a separate \<^verbatim>\<open>media\<close> event; when
  the size is at or above the threshold, it forwards the message and a \<^verbatim>\<open>media\<close>
  event built from the declared mimetype and size alone, with \<^verbatim>\<open>null\<close> for the
  data, and fetches nothing.
\<close>

theorem on_message_media_threshold:
  assumes "hasMedia msg" and "data_size msg = Some n"
  shows "(n < maxAttachmentSize w \<longrightarrow>
            take 2 (snd (on_message w sessionId msg)) =
              [TriggerWebhook sessionId ''message'' (Message_payload msg), DownloadMedia]
            \<and> (\<forall>m. downloadMedia msg = Inr m \<longrightarrow>
                  on_message w sessionId msg =
                    (Inr (), [TriggerWebhook sessionId ''message'' (Message_payload msg),
                              DownloadMedia,
                              TriggerWebhook sessionId ''media'' (Media_payload m)])))
     \<and> (maxAttachmentSize w \<le> n \<longrightarrow>
            on_message w sessionId msg =
              (Inr (), [TriggerWebhook sessionId ''message'' (Message_payload msg),
                        TriggerWebhook sessionId ''media''
                          (MessageMedia (data_mimetype msg) None (Some n))]))"
  using assms by (auto simp: on_message_def Let_def split: sum.splits)

theorem on_message_media_threshold_witness:
  "hasMedia photo \<and> data_size photo = Some 5000000
   \<and> maxAttachmentSize quiet_world = 1000000
   \<and> on_message quiet_world ''abc'' photo =
        (Inr (), [TriggerWebhook ''abc'' ''message'' (Message_payload photo),
                  TriggerWebhook ''abc'' ''media'' (MessageMedia (Some ''image/jpeg'') None (Some 5000000))])
   \<and> maxAttachmentSize large_threshold_world = 10000000
   \<and> on_message large_threshold_world ''abc'' photo =
        (Inr (), [TriggerWebhook ''abc'' ''message'' (Message_payload photo), DownloadMedia,
                  TriggerWebhook ''abc'' ''media'' (Media_payload ''/9j/4AAQSkZJRg=='')])"
proof -
  have h1: "hasMedia photo" and h2: "data_size photo = Some 5000000"
    and mt: "data_mimetype photo = Some ''image/jpeg''"
    and dl: "downloadMedia photo = Inr ''/9j/4AAQSkZJRg==''"
    by (simp_all add: photo_def)
  have m1: "maxAttachmentSize quiet_world = 1000000" by (simp add: quiet_world_def)
  have m2: "maxAttachmentSize large_threshold_world = 10000000"
    by (simp add: large_threshold_world_def quiet_world_def)
  have big: "maxAttachmentSize quiet_world \<le> 5000000" unfolding m1 by simp
  have small: "5000000 < maxAttachmentSize large_threshold_world" unfolding m2 by simp
  from on_message_media_threshold [OF h1 h2, of quiet_world "''abc''", THEN conjunct2, rule_format, OF big]
  have a: "on_message quiet_world ''abc'' photo =
        (Inr (), [TriggerWebhook ''abc'' ''message'' (Message_payload photo),
                  TriggerWebhook ''abc'' ''media'' (MessageMedia (Some ''image/jpeg'') None (Some 5000000))])"
    unfolding mt .
  from on_message_media_threshold [OF h1 h2, of large_threshold_world "''abc''", THEN conjunct1,
      rule_format, OF small, THEN conjunct2, rule_format, OF dl]
  have b: "on_message large_threshold_world ''abc'' photo =
        (Inr (), [TriggerWebhook ''abc'' ''message'' (Message_payload photo), DownloadMedia,
                  TriggerWebhook ''abc'' ''media'' (Media_payload ''/9j/4AAQSkZJRg=='')])" .
  from h1 h2 m1 a m2 b show ?thesis by blast
qed

subsection \<open>flushSessions\<close>























end
